theory Spec2Isabelle
  imports Complex_Main "HOL-Library.Monad_Syntax" "HOL-Library.Sublist"
begin

section \<open>Data model of \<open>spatial_computing.py\<close>\<close>

text \<open>
  Python floats are modelled as reals. The model covers coordinates, radii and thresholds
  that are finite and not NaN, and it abstracts from rounding and from the range of a
  double: \<open>distance_to\<close> is the exact Euclidean distance here. The queries only compare
  the distances they compute, so what is proved about filtering and order does not depend
  on how a distance is rounded. Python's unbounded integers are \<open>int\<close>, its strings are
  \<open>string\<close>.

  Record fields are global constants in HOL, and the three dataclasses share field names
  (\<open>id\<close>, \<open>name\<close>, \<open>x\<close>, \<open>y\<close>, \<open>z\<close>), so the clashing fields carry a prefix:
  \<open>p_\<close> for \<open>Point3D\<close>, \<open>z_\<close> for \<open>Zone\<close> and \<open>e_\<close> for \<open>SpatialEntity\<close>.
  The other fields keep their names.
\<close>

record Point3D =
  p_x :: real
  p_y :: real
  p_z :: real

definition distance_to :: "Point3D \<Rightarrow> Point3D \<Rightarrow> real" where
  "distance_to self other =
     sqrt ((p_x self - p_x other)\<^sup>2 + (p_y self - p_y other)\<^sup>2 + (p_z self - p_z other)\<^sup>2)"

record Zone =
  z_id :: int
  z_name :: string
  center_x :: real
  center_y :: real
  center_z :: real
  radius :: real
  zone_type :: string
  created_at :: string
  active :: int

definition center :: "Zone \<Rightarrow> Point3D" where
  "center self = \<lparr>p_x = center_x self, p_y = center_y self, p_z = center_z self\<rparr>"

record SpatialEntity =
  e_id :: int
  e_name :: string
  e_x :: real
  e_y :: real
  e_z :: real
  entity_type :: string
  metadata :: string
  last_updated :: string

definition position :: "SpatialEntity \<Rightarrow> Point3D" where
  "position self = \<lparr>p_x = e_x self, p_y = e_y self, p_z = e_z self\<rparr>"

subsection \<open>Python values\<close>

text \<open>
  The values that cross the interface as dictionaries: the \<open>metadata\<close> argument of
  \<open>add_entity\<close> and the structure \<open>export_data\<close> returns. A dictionary is an association
  list in insertion order. \<open>PyList\<close> stands for lists and tuples; \<open>PySet\<close> is a set,
  one of the types \<open>json\<close> has no encoding for.
\<close>

datatype pyval =
    PyNone
  | PyBool bool
  | PyInt int
  | PyFloat real
  | PyStr string
  | PyList "pyval list"
  | PyDict "(pyval \<times> pyval) list"
  | PySet "pyval list"

datatype error =
    IntegrityError string
  | TypeError

text \<open>
  \<open>json.dumps\<close> belongs to the standard library. With its default arguments it raises
  \<open>TypeError\<close> on a value of a type it has no encoding for, and on a dictionary key that is
  not a string, a number, a boolean or \<open>None\<close>; otherwise it returns the JSON text. The
  text itself is taken as a parameter \<open>enc\<close>: nothing below depends on its format.
\<close>

fun json_key :: "pyval \<Rightarrow> bool" where
  "json_key PyNone = True"
| "json_key (PyBool b) = True"
| "json_key (PyInt i) = True"
| "json_key (PyFloat r) = True"
| "json_key (PyStr s) = True"
| "json_key v = False"

fun json_serializable :: "pyval \<Rightarrow> bool" where
  "json_serializable (PySet vs) = False"
| "json_serializable (PyList vs) = list_all json_serializable vs"
| "json_serializable (PyDict kvs) =
     list_all (\<lambda>kv. json_key (fst kv) \<and> json_serializable (snd kv)) kvs"
| "json_serializable v = True"

definition json_dumps :: "(pyval \<Rightarrow> string) \<Rightarrow> pyval \<Rightarrow> error + string" where
  "json_dumps enc v = (if json_serializable v then Inr (enc v) else Inl TypeError)"

section \<open>The SQLite store\<close>

text \<open>
  The database file holds two tables. A table is the list of its rows in rowid order, which
  is the order \<open>SELECT *\<close> scans them in, together with the largest rowid the table has
  ever held (the \<open>sqlite_sequence\<close> entry that \<open>AUTOINCREMENT\<close> maintains). Every
  method opens its own connection; a \<open>with\<close> block commits on normal exit and rolls back
  when the block raises, so a method that fails leaves the database as it found it.
  Rowids are not bounded in the model.
\<close>

record database =
  zones :: "Zone list"
  zones_seq :: int
  entities :: "SpatialEntity list"
  entities_seq :: int

definition init_db :: database where
  "init_db = \<lparr>zones = [], zones_seq = 0, entities = [], entities_seq = 0\<rparr>"

definition next_rowid :: "int \<Rightarrow> int list \<Rightarrow> int" where
  "next_rowid seq ids = fold max ids seq + 1"

definition add_zone ::
  "database \<Rightarrow> string \<Rightarrow> real \<Rightarrow> real \<Rightarrow> real \<Rightarrow> real \<Rightarrow> string \<Rightarrow> string
     \<Rightarrow> (error + Zone) \<times> database" where
  "add_zone db name cx cy cz rad ztype now =
     (if name \<in> set (map z_name (zones db))
      then (Inl (IntegrityError ''UNIQUE constraint failed: zones.name''), db)
      else
        let lastrowid = next_rowid (zones_seq db) (map z_id (zones db));
            row = \<lparr>z_id = lastrowid, z_name = name, center_x = cx, center_y = cy,
                   center_z = cz, radius = rad, zone_type = ztype, created_at = now,
                   active = 1\<rparr>
        in (Inr row, db\<lparr>zones := zones db @ [row], zones_seq := lastrowid\<rparr>))"

text \<open>
  \<open>metadata or {}\<close>: \<open>None\<close> and the empty dictionary are the falsy arguments, and both
  give the empty dictionary.
\<close>

definition py_or_empty :: "(pyval \<times> pyval) list option \<Rightarrow> pyval" where
  "py_or_empty md = (case md of None \<Rightarrow> PyDict [] | Some kvs \<Rightarrow> PyDict kvs)"

definition add_entity ::
  "(pyval \<Rightarrow> string) \<Rightarrow> database \<Rightarrow> string \<Rightarrow> real \<Rightarrow> real \<Rightarrow> real \<Rightarrow> string
     \<Rightarrow> (pyval \<times> pyval) list option \<Rightarrow> string \<Rightarrow> (error + SpatialEntity) \<times> database" where
  "add_entity enc db name ex ey ez etype md now =
     (case json_dumps enc (py_or_empty md) of
        Inl err \<Rightarrow> (Inl err, db)
      | Inr meta \<Rightarrow>
          let lastrowid = next_rowid (entities_seq db) (map e_id (entities db));
              row = \<lparr>e_id = lastrowid, e_name = name, e_x = ex, e_y = ey, e_z = ez,
                     entity_type = etype, metadata = meta, last_updated = now\<rparr>
          in (Inr row, db\<lparr>entities := entities db @ [row], entities_seq := lastrowid\<rparr>))"

definition list_zones :: "bool \<Rightarrow> database \<Rightarrow> Zone list" where
  "list_zones active_only db =
     (if active_only then filter (\<lambda>r. active r = 1) (zones db) else zones db)"

definition list_entities :: "database \<Rightarrow> SpatialEntity list" where
  "list_entities db = entities db"

section \<open>Queries\<close>

text \<open>
  \<open>fetchone\<close> returns the first row the scan meets, or \<open>None\<close>. The two \<open>for\<close> loops
  append to \<open>results\<close>; \<open>sorted\<close> with a key is Python's stable sort, here the stable
  insertion sort \<open>sort_key\<close> of the list library.
\<close>

fun zone_loop ::
  "Zone \<Rightarrow> SpatialEntity list \<Rightarrow> (SpatialEntity \<times> real) list \<Rightarrow> (SpatialEntity \<times> real) list" where
  "zone_loop zone [] results = results"
| "zone_loop zone (entity # rest) results =
     (let dist = distance_to (position entity) (center zone)
      in if dist \<le> radius zone then zone_loop zone rest (results @ [(entity, dist)])
         else zone_loop zone rest results)"

definition find_entities_in_zone :: "database \<Rightarrow> string \<Rightarrow> (SpatialEntity \<times> real) list" where
  "find_entities_in_zone db zone_name =
     (case find (\<lambda>r. z_name r = zone_name) (zones db) of
        None \<Rightarrow> []
      | Some zone \<Rightarrow> sort_key snd (zone_loop zone (list_entities db) []))"

fun proximity_loop ::
  "SpatialEntity \<Rightarrow> real \<Rightarrow> SpatialEntity list \<Rightarrow> (SpatialEntity \<times> real) list
     \<Rightarrow> (SpatialEntity \<times> real) list" where
  "proximity_loop target threshold [] results = results"
| "proximity_loop target threshold (entity # rest) results =
     (if e_id entity = e_id target then proximity_loop target threshold rest results
      else
        let dist = distance_to (position entity) (position target)
        in if dist \<le> threshold
           then proximity_loop target threshold rest (results @ [(entity, dist)])
           else proximity_loop target threshold rest results)"

definition proximity_check ::
  "database \<Rightarrow> string \<Rightarrow> real \<Rightarrow> (SpatialEntity \<times> real) list" where
  "proximity_check db entity_name threshold =
     (case find (\<lambda>r. e_name r = entity_name) (entities db) of
        None \<Rightarrow> []
      | Some target \<Rightarrow> sort_key snd (proximity_loop target threshold (list_entities db) []))"

section \<open>Export\<close>

text \<open>
  \<open>dataclasses.asdict\<close> lists the fields of a dataclass in declaration order, under their
  Python names. \<open>export_data\<close> reads every zone (\<open>active_only=False\<close>) and every entity.
\<close>

definition asdict_Zone :: "Zone \<Rightarrow> pyval" where
  "asdict_Zone r = PyDict
     [(PyStr ''id'', PyInt (z_id r)),
      (PyStr ''name'', PyStr (z_name r)),
      (PyStr ''center_x'', PyFloat (center_x r)),
      (PyStr ''center_y'', PyFloat (center_y r)),
      (PyStr ''center_z'', PyFloat (center_z r)),
      (PyStr ''radius'', PyFloat (radius r)),
      (PyStr ''zone_type'', PyStr (zone_type r)),
      (PyStr ''created_at'', PyStr (created_at r)),
      (PyStr ''active'', PyInt (active r))]"

definition asdict_SpatialEntity :: "SpatialEntity \<Rightarrow> pyval" where
  "asdict_SpatialEntity r = PyDict
     [(PyStr ''id'', PyInt (e_id r)),
      (PyStr ''name'', PyStr (e_name r)),
      (PyStr ''x'', PyFloat (e_x r)),
      (PyStr ''y'', PyFloat (e_y r)),
      (PyStr ''z'', PyFloat (e_z r)),
      (PyStr ''entity_type'', PyStr (entity_type r)),
      (PyStr ''metadata'', PyStr (metadata r)),
      (PyStr ''last_updated'', PyStr (last_updated r))]"

definition export_data :: "database \<Rightarrow> string \<Rightarrow> pyval" where
  "export_data db now = PyDict
     [(PyStr ''zones'', PyList (map asdict_Zone (list_zones False db))),
      (PyStr ''entities'', PyList (map asdict_SpatialEntity (list_entities db))),
      (PyStr ''exported_at'', PyStr now)]"

subsection \<open>Reading an export back\<close>

text \<open>
  The reconstruction the spec speaks of, in the spec's words: the repository has no import
  operation, and the round trip builds the records again from an export, \<open>Zone(**d)\<close>
  and \<open>SpatialEntity(**d)\<close> for each exported dictionary \<open>d\<close>. A reader returns \<open>None\<close>
  where a key is missing or holds a value of another type.
\<close>

definition get_int :: "pyval \<Rightarrow> string \<Rightarrow> int option" where
  "get_int d k = (case d of PyDict kvs \<Rightarrow>
       (case map_of kvs (PyStr k) of Some (PyInt i) \<Rightarrow> Some i | _ \<Rightarrow> None) | _ \<Rightarrow> None)"

definition get_float :: "pyval \<Rightarrow> string \<Rightarrow> real option" where
  "get_float d k = (case d of PyDict kvs \<Rightarrow>
       (case map_of kvs (PyStr k) of Some (PyFloat r) \<Rightarrow> Some r | _ \<Rightarrow> None) | _ \<Rightarrow> None)"

definition get_str :: "pyval \<Rightarrow> string \<Rightarrow> string option" where
  "get_str d k = (case d of PyDict kvs \<Rightarrow>
       (case map_of kvs (PyStr k) of Some (PyStr s) \<Rightarrow> Some s | _ \<Rightarrow> None) | _ \<Rightarrow> None)"

definition get_list :: "pyval \<Rightarrow> string \<Rightarrow> pyval list option" where
  "get_list d k = (case d of PyDict kvs \<Rightarrow>
       (case map_of kvs (PyStr k) of Some (PyList vs) \<Rightarrow> Some vs | _ \<Rightarrow> None) | _ \<Rightarrow> None)"

definition reconstruct_Zone :: "pyval \<Rightarrow> Zone option" where
  "reconstruct_Zone d = do {
     i \<leftarrow> get_int d ''id'';
     n \<leftarrow> get_str d ''name'';
     cx \<leftarrow> get_float d ''center_x'';
     cy \<leftarrow> get_float d ''center_y'';
     cz \<leftarrow> get_float d ''center_z'';
     r \<leftarrow> get_float d ''radius'';
     t \<leftarrow> get_str d ''zone_type'';
     c \<leftarrow> get_str d ''created_at'';
     a \<leftarrow> get_int d ''active'';
     Some \<lparr>z_id = i, z_name = n, center_x = cx, center_y = cy, center_z = cz, radius = r,
           zone_type = t, created_at = c, active = a\<rparr>
   }"

definition reconstruct_SpatialEntity :: "pyval \<Rightarrow> SpatialEntity option" where
  "reconstruct_SpatialEntity d = do {
     i \<leftarrow> get_int d ''id'';
     n \<leftarrow> get_str d ''name'';
     ex \<leftarrow> get_float d ''x'';
     ey \<leftarrow> get_float d ''y'';
     ez \<leftarrow> get_float d ''z'';
     t \<leftarrow> get_str d ''entity_type'';
     m \<leftarrow> get_str d ''metadata'';
     u \<leftarrow> get_str d ''last_updated'';
     Some \<lparr>e_id = i, e_name = n, e_x = ex, e_y = ey, e_z = ez, entity_type = t,
           metadata = m, last_updated = u\<rparr>
   }"

definition reconstruct :: "pyval \<Rightarrow> (Zone list \<times> SpatialEntity list) option" where
  "reconstruct exported = do {
     zs \<leftarrow> get_list exported ''zones'';
     es \<leftarrow> get_list exported ''entities'';
     zones' \<leftarrow> those (map reconstruct_Zone zs);
     entities' \<leftarrow> those (map reconstruct_SpatialEntity es);
     Some (zones', entities')
   }"

section \<open>Example databases\<close>

text \<open>
  The command line never passes metadata, so every entity it registers stores the text of
  the empty dictionary.
\<close>

definition enc_empty :: "pyval \<Rightarrow> string" where
  "enc_empty v = ''{}''"

text \<open>
  \<open>add-zone A --radius 5\<close>, then \<open>add-entity\<close> for \<open>p1\<close> at \<open>(3,0,0)\<close>, \<open>p2\<close> at
  \<open>(10,0,0)\<close>, \<open>p3\<close> at \<open>(-3,0,0)\<close>, \<open>p4\<close> at \<open>(5,0,0)\<close>, on the surface of the
  zone, and a second \<open>p1\<close> at \<open>(3,0,0)\<close>.
\<close>

definition example_db :: database where
  "example_db =
     (let db1 = snd (add_zone init_db ''A'' 0 0 0 5 ''generic'' ''t0'');
          db2 = snd (add_entity enc_empty db1 ''p1'' 3 0 0 ''object'' None ''t1'');
          db3 = snd (add_entity enc_empty db2 ''p2'' 10 0 0 ''object'' None ''t2'');
          db4 = snd (add_entity enc_empty db3 ''p3'' (-3) 0 0 ''object'' None ''t3'');
          db5 = snd (add_entity enc_empty db4 ''p4'' 5 0 0 ''object'' None ''t4'')
      in snd (add_entity enc_empty db5 ''p1'' 3 0 0 ''object'' None ''t5''))"

definition ent :: "int \<Rightarrow> string \<Rightarrow> real \<Rightarrow> string \<Rightarrow> SpatialEntity" where
  "ent i n ex t = \<lparr>e_id = i, e_name = n, e_x = ex, e_y = 0, e_z = 0, entity_type = ''object'',
                  metadata = ''{}'', last_updated = t\<rparr>"

definition zone_A :: Zone where
  "zone_A = \<lparr>z_id = 1, z_name = ''A'', center_x = 0, center_y = 0, center_z = 0, radius = 5,
             zone_type = ''generic'', created_at = ''t0'', active = 1\<rparr>"

section \<open>Properties of the model\<close>

subsection \<open>The loops as filters\<close>

lemma zone_loop_eq:
  "zone_loop zone es results =
     results @ map (\<lambda>e. (e, distance_to (position e) (center zone)))
       (filter (\<lambda>e. distance_to (position e) (center zone) \<le> radius zone) es)"
  by (induction es arbitrary: results) (simp_all add: Let_def)

lemma proximity_loop_eq:
  "proximity_loop target threshold es results =
     results @ map (\<lambda>e. (e, distance_to (position e) (position target)))
       (filter (\<lambda>e. e_id e \<noteq> e_id target \<and>
                      distance_to (position e) (position target) \<le> threshold) es)"
  by (induction es arbitrary: results) (simp_all add: Let_def)


lemma distance_to_x_axis:
  "p_y a = p_y b \<Longrightarrow> p_z a = p_z b \<Longrightarrow> distance_to a b = \<bar>p_x a - p_x b\<bar>"
  by (simp add: distance_to_def)

lemma find_entities_in_zone_Some:
  assumes "find (\<lambda>r. z_name r = zone_name) (zones db) = Some zone"
  shows "find_entities_in_zone db zone_name =
     sort_key snd (map (\<lambda>e. (e, distance_to (position e) (center zone)))
       (filter (\<lambda>e. distance_to (position e) (center zone) \<le> radius zone) (entities db)))"
  using assms by (simp add: find_entities_in_zone_def zone_loop_eq list_entities_def)

lemma proximity_check_Some:
  assumes "find (\<lambda>r. e_name r = entity_name) (entities db) = Some target"
  shows "proximity_check db entity_name threshold =
     sort_key snd (map (\<lambda>e. (e, distance_to (position e) (position target)))
       (filter (\<lambda>e. e_id e \<noteq> e_id target \<and>
                      distance_to (position e) (position target) \<le> threshold) (entities db)))"
  using assms by (simp add: proximity_check_def proximity_loop_eq list_entities_def)

subsection \<open>Row ids and the name constraint\<close>



text \<open>
  Zone names are distinct in the empty database, and \<open>add_zone\<close> and \<open>add_entity\<close> keep
  them distinct: the \<open>UNIQUE\<close> constraint holds in every database the program builds.
\<close>

lemma init_db_names_distinct: "distinct (map z_name (zones init_db))"
  by (simp add: init_db_def)

lemma add_zone_names_distinct:
  assumes "distinct (map z_name (zones db))"
  shows "distinct (map z_name (zones (snd (add_zone db name cx cy cz rad ztype now))))"
  using assms by (simp add: add_zone_def Let_def)

lemma add_entity_zones: "zones (snd (add_entity enc db name ex ey ez etype md now)) = zones db"
  by (simp add: add_entity_def Let_def split: sum.split)

subsection \<open>The example database, row by row\<close>

lemma add_entity_cli:
  "snd (add_entity enc_empty \<lparr>zones = zs, zones_seq = s, entities = es, entities_seq = q\<rparr>
          n ex 0 0 ''object'' None t) =
   \<lparr>zones = zs, zones_seq = s,
    entities = es @ [ent (next_rowid q (map e_id es)) n ex t],
    entities_seq = next_rowid q (map e_id es)\<rparr>"
  by (simp add: add_entity_def json_dumps_def py_or_empty_def ent_def enc_empty_def Let_def)

lemma add_zone_empty:
  "snd (add_zone init_db ''A'' 0 0 0 5 ''generic'' ''t0'') =
     \<lparr>zones = [zone_A], zones_seq = 1, entities = [], entities_seq = 0\<rparr>"
  by (simp add: add_zone_def init_db_def next_rowid_def zone_A_def Let_def)

lemma example_db_rows:
  "example_db = \<lparr>zones = [zone_A], zones_seq = 1,
     entities = [ent 1 ''p1'' 3 ''t1'', ent 2 ''p2'' 10 ''t2'', ent 3 ''p3'' (-3) ''t3'',
                 ent 4 ''p4'' 5 ''t4'', ent 5 ''p1'' 3 ''t5''],
     entities_seq = 5\<rparr>"
  unfolding example_db_def Let_def add_zone_empty add_entity_cli
  by (simp add: next_rowid_def ent_def)

lemma example_in_zone:
  "find_entities_in_zone example_db ''A'' =
     [(ent 1 ''p1'' 3 ''t1'', 3), (ent 3 ''p3'' (-3) ''t3'', 3), (ent 5 ''p1'' 3 ''t5'', 3),
      (ent 4 ''p4'' 5 ''t4'', 5)]"
  by (simp add: find_entities_in_zone_def example_db_rows zone_A_def list_entities_def
      ent_def distance_to_x_axis position_def center_def)

lemma example_proximity:
  "proximity_check example_db ''p1'' 6 =
     [(ent 5 ''p1'' 3 ''t5'', 0), (ent 4 ''p4'' 5 ''t4'', 2), (ent 3 ''p3'' (-3) ''t3'', 6)]"
  by (simp add: proximity_check_def example_db_rows list_entities_def
      ent_def distance_to_x_axis position_def)

section \<open>Names that match no record\<close>

text \<open>
  Claim C4. A zone name that no zone row carries makes \<open>find_entities_in_zone\<close> return the
  empty list, and an entity name that no entity row carries makes \<open>proximity_check\<close> return
  the empty list. Both queries only read the store and have no failing branch: their result
  is a list, not an error.
\<close>

theorem missing_name_gives_empty:
  "(zone_name \<notin> z_name ` set (zones db) \<longrightarrow> find_entities_in_zone db zone_name = []) \<and>
   (entity_name \<notin> e_name ` set (entities db) \<longrightarrow>
      proximity_check db entity_name threshold = [])"
proof -
  have "find (\<lambda>r. z_name r = zone_name) (zones db) = None"
    if "zone_name \<notin> z_name ` set (zones db)"
    using that by (auto simp: find_None_iff)
  moreover have "find (\<lambda>r. e_name r = entity_name) (entities db) = None"
    if "entity_name \<notin> e_name ` set (entities db)"
    using that by (auto simp: find_None_iff)
  ultimately show ?thesis
    by (simp add: find_entities_in_zone_def proximity_check_def)
qed

theorem missing_name_gives_empty_witness:
  "''B'' \<notin> z_name ` set (zones example_db) \<and>
   find_entities_in_zone example_db ''B'' = [] \<and>
   ''q'' \<notin> e_name ` set (entities example_db) \<and>
   proximity_check example_db ''q'' 50 = []"
  using missing_name_gives_empty [of "''B''" example_db "''q''" 50]
  by (simp add: example_db_rows zone_A_def ent_def)

section \<open>A zone name used twice\<close>

text \<open>
  Claim C5. When the store already holds a zone named \<open>name\<close>, \<open>add_zone\<close> with that name
  fails with the integrity error of the \<open>UNIQUE\<close> constraint (the spec's
  DuplicateNameError) and the database after the call is the database before it: no row
  is added and none is modified, in either table.
\<close>

theorem add_zone_duplicate_name:
  assumes "name \<in> z_name ` set (zones db)"
  shows "add_zone db name cx cy cz rad ztype now =
           (Inl (IntegrityError ''UNIQUE constraint failed: zones.name''), db)"
  using assms by (simp add: add_zone_def)

theorem add_zone_duplicate_name_witness:
  "''A'' \<in> z_name ` set (zones example_db) \<and>
   add_zone example_db ''A'' 1 2 3 4 ''other'' ''t9'' =
     (Inl (IntegrityError ''UNIQUE constraint failed: zones.name''), example_db)"
proof -
  have h: "''A'' \<in> z_name ` set (zones example_db)"
    by (simp add: example_db_rows zone_A_def)
  show ?thesis
    using h add_zone_duplicate_name [OF h, of 1 2 3 4 "''other''" "''t9''"] by simp
qed

section \<open>Zone membership\<close>



section \<open>Order of the results\<close>

lemma stable_part:
  "map fst (filter (\<lambda>t. snd t = k) (sort_key snd (map (\<lambda>e. (e, g e)) (filter P es)))) =
     filter (\<lambda>e. P e \<and> g e = k) es"
proof -
  have "filter (\<lambda>t. snd t = k) (sort_key snd (map (\<lambda>e. (e, g e)) (filter P es))) =
        filter (\<lambda>t. snd t = k) (map (\<lambda>e. (e, g e)) (filter P es))"
    by (rule sort_key_stable)
  then show ?thesis
    by (simp add: filter_map comp_def)
qed

lemma sorted_part: "sorted (map snd (sort_key snd xs))"
  by (rule sorted_sort_key)

text \<open>
  Claim C2. The results of \<open>find_entities_in_zone\<close> and of \<open>proximity_check\<close> are sorted
  by non-decreasing distance, and the sort is stable: for every distance \<open>k\<close>, the entities
  the result pairs with \<open>k\<close>, read in result order, form a subsequence of the entities in
  load order, so two entries with equal distance keep the relative order they were loaded in.
  They are exactly the loaded entities that pass the test of the query at distance \<open>k\<close>,
  in load order.
\<close>

theorem query_results_sorted_stable:
  "sorted (map snd (find_entities_in_zone db zone_name)) \<and>
   sorted (map snd (proximity_check db entity_name threshold)) \<and>
   subseq (map fst (filter (\<lambda>t. snd t = k) (find_entities_in_zone db zone_name)))
          (list_entities db) \<and>
   subseq (map fst (filter (\<lambda>t. snd t = k) (proximity_check db entity_name threshold)))
          (list_entities db) \<and>
   map fst (filter (\<lambda>t. snd t = k) (find_entities_in_zone db zone_name)) =
     (case find (\<lambda>r. z_name r = zone_name) (zones db) of
        None \<Rightarrow> []
      | Some zone \<Rightarrow>
          filter (\<lambda>e. distance_to (position e) (center zone) \<le> radius zone \<and>
                       distance_to (position e) (center zone) = k) (list_entities db)) \<and>
   map fst (filter (\<lambda>t. snd t = k) (proximity_check db entity_name threshold)) =
     (case find (\<lambda>r. e_name r = entity_name) (entities db) of
        None \<Rightarrow> []
      | Some target \<Rightarrow>
          filter (\<lambda>e. (e_id e \<noteq> e_id target \<and>
                        distance_to (position e) (position target) \<le> threshold) \<and>
                       distance_to (position e) (position target) = k) (list_entities db))"
proof -
  have z: "sorted (map snd (find_entities_in_zone db zone_name)) \<and>
      subseq (map fst (filter (\<lambda>t. snd t = k) (find_entities_in_zone db zone_name)))
             (list_entities db) \<and>
      map fst (filter (\<lambda>t. snd t = k) (find_entities_in_zone db zone_name)) =
        (case find (\<lambda>r. z_name r = zone_name) (zones db) of
           None \<Rightarrow> []
         | Some zone \<Rightarrow>
             filter (\<lambda>e. distance_to (position e) (center zone) \<le> radius zone \<and>
                          distance_to (position e) (center zone) = k) (list_entities db))"
  proof (cases "find (\<lambda>r. z_name r = zone_name) (zones db)")
    case None
    then show ?thesis by (simp add: find_entities_in_zone_def)
  next
    case (Some zone)
    show ?thesis
      unfolding find_entities_in_zone_Some [OF Some] stable_part list_entities_def Some
      by (simp add: sorted_part del: sorted_sort_key)
  qed
  have p: "sorted (map snd (proximity_check db entity_name threshold)) \<and>
      subseq (map fst (filter (\<lambda>t. snd t = k) (proximity_check db entity_name threshold)))
             (list_entities db) \<and>
      map fst (filter (\<lambda>t. snd t = k) (proximity_check db entity_name threshold)) =
        (case find (\<lambda>r. e_name r = entity_name) (entities db) of
           None \<Rightarrow> []
         | Some target \<Rightarrow>
             filter (\<lambda>e. (e_id e \<noteq> e_id target \<and>
                           distance_to (position e) (position target) \<le> threshold) \<and>
                          distance_to (position e) (position target) = k) (list_entities db))"
  proof (cases "find (\<lambda>r. e_name r = entity_name) (entities db)")
    case None
    then show ?thesis by (simp add: proximity_check_def)
  next
    case (Some target)
    show ?thesis
      unfolding proximity_check_Some [OF Some] stable_part list_entities_def Some
      by (simp add: sorted_part del: sorted_sort_key)
  qed
  from z p show ?thesis by blast
qed

theorem query_results_sorted_stable_witness:
  "map snd (find_entities_in_zone example_db ''A'') = [3, 3, 3, 5] \<and>
   sorted (map snd (find_entities_in_zone example_db ''A'')) \<and>
   map fst (filter (\<lambda>t. snd t = 3) (find_entities_in_zone example_db ''A'')) =
     [ent 1 ''p1'' 3 ''t1'', ent 3 ''p3'' (-3) ''t3'', ent 5 ''p1'' 3 ''t5''] \<and>
   subseq [ent 1 ''p1'' 3 ''t1'', ent 3 ''p3'' (-3) ''t3'', ent 5 ''p1'' 3 ''t5'']
     (list_entities example_db) \<and>
   sorted (map snd (proximity_check example_db ''p1'' 6))"
proof -
  have m: "map fst (filter (\<lambda>t. snd t = 3) (find_entities_in_zone example_db ''A'')) =
     [ent 1 ''p1'' 3 ''t1'', ent 3 ''p3'' (-3) ''t3'', ent 5 ''p1'' 3 ''t5'']"
    by (simp add: example_in_zone)
  have d: "map snd (find_entities_in_zone example_db ''A'') = [3, 3, 3, 5]"
    by (simp add: example_in_zone)
  note T = query_results_sorted_stable [of example_db "''A''" "''p1''" 6 3]
  from T have s1: "sorted (map snd (find_entities_in_zone example_db ''A''))"
    by (rule conjunct1)
  from T have s2: "sorted (map snd (proximity_check example_db ''p1'' 6))"
    by (elim conjE)
  from T have "subseq
      (map fst (filter (\<lambda>t. snd t = 3) (find_entities_in_zone example_db ''A'')))
      (list_entities example_db)"
    by (elim conjE)
  then have s3: "subseq [ent 1 ''p1'' 3 ''t1'', ent 3 ''p3'' (-3) ''t3'', ent 5 ''p1'' 3 ''t5'']
      (list_entities example_db)"
    unfolding m .
  from d s1 m s3 s2 show ?thesis by blast
qed

section \<open>The target of a proximity check\<close>

text \<open>
  Claim C3. When \<open>proximity_check\<close> resolves the name to the target row, no entry of its
  result carries the id of the target, whatever the threshold. The exclusion is by id alone:
  another entity at the very position of the target, with a different id, is in the result
  at distance \<open>0\<close> for every threshold that is not negative.
\<close>

theorem proximity_check_excludes_target:
  assumes "find (\<lambda>r. e_name r = entity_name) (entities db) = Some target"
  shows "(\<forall>t \<in> set (proximity_check db entity_name threshold). e_id (fst t) \<noteq> e_id target) \<and>
         (\<forall>e \<in> set (entities db).
            e_id e \<noteq> e_id target \<and> position e = position target \<and> 0 \<le> threshold
              \<longrightarrow> (e, 0) \<in> set (proximity_check db entity_name threshold))"
proof -
  have R: "set (proximity_check db entity_name threshold) =
      (\<lambda>e. (e, distance_to (position e) (position target))) `
        {e \<in> set (entities db). e_id e \<noteq> e_id target \<and>
           distance_to (position e) (position target) \<le> threshold}"
    by (simp add: proximity_check_Some [OF assms])
  have zero: "distance_to p p = 0" for p
    by (simp add: distance_to_def)
  show ?thesis
    unfolding R by (auto simp: image_iff zero)
qed

theorem proximity_check_excludes_target_witness:
  "find (\<lambda>r. e_name r = ''p1'') (entities example_db) = Some (ent 1 ''p1'' 3 ''t1'') \<and>
   ent 5 ''p1'' 3 ''t5'' \<in> set (entities example_db) \<and>
   position (ent 5 ''p1'' 3 ''t5'') = position (ent 1 ''p1'' 3 ''t1'') \<and>
   (ent 5 ''p1'' 3 ''t5'', 0) \<in> set (proximity_check example_db ''p1'' 6) \<and>
   e_id (ent 1 ''p1'' 3 ''t1'') \<notin> e_id ` fst ` set (proximity_check example_db ''p1'' 6)"
proof -
  have h: "find (\<lambda>r. e_name r = ''p1'') (entities example_db) = Some (ent 1 ''p1'' 3 ''t1'')"
    by (simp add: example_db_rows ent_def)
  have m: "ent 5 ''p1'' 3 ''t5'' \<in> set (entities example_db)"
    by (simp add: example_db_rows)
  have q: "position (ent 5 ''p1'' 3 ''t5'') = position (ent 1 ''p1'' 3 ''t1'')"
    and i: "e_id (ent 5 ''p1'' 3 ''t5'') \<noteq> e_id (ent 1 ''p1'' 3 ''t1'')"
    by (simp_all add: position_def ent_def)
  note T = proximity_check_excludes_target [OF h, of 6]
  from T m q i have a: "(ent 5 ''p1'' 3 ''t5'', 0) \<in> set (proximity_check example_db ''p1'' 6)"
    by auto
  from T have b: "e_id (ent 1 ''p1'' 3 ''t1'') \<notin> e_id ` fst ` set (proximity_check example_db ''p1'' 6)"
    by force
  from h m q a b show ?thesis by simp
qed

section \<open>Inactive zones\<close>

text \<open>
  Claim C10. \<open>find_entities_in_zone\<close> never reads the \<open>active\<close> column: changing the flags
  of the zone rows in any way leaves its result as it was, and for a zone whose flag is
  \<open>0\<close> the result is the membership computation, sorted by distance, as for any other zone.
\<close>

theorem find_entities_in_zone_ignores_active:
  "find_entities_in_zone (db\<lparr>zones := map (\<lambda>r. r\<lparr>active := flag r\<rparr>) (zones db)\<rparr>) zone_name =
     find_entities_in_zone db zone_name \<and>
   (find (\<lambda>r. z_name r = zone_name) (zones db) = Some zone \<and> active zone = 0 \<longrightarrow>
      find_entities_in_zone db zone_name =
        sort_key snd (map (\<lambda>e. (e, distance_to (position e) (center zone)))
          (filter (\<lambda>e. distance_to (position e) (center zone) \<le> radius zone)
             (list_entities db))))"
proof -
  have f: "find (\<lambda>r. z_name r = zone_name) (map (\<lambda>r. r\<lparr>active := flag r\<rparr>) zs) =
           map_option (\<lambda>r. r\<lparr>active := flag r\<rparr>) (find (\<lambda>r. z_name r = zone_name) zs)" for zs
    by (induction zs) simp_all
  have l: "zone_loop (z\<lparr>active := a\<rparr>) es results = zone_loop z es results"
    for z a es results
    by (simp add: zone_loop_eq center_def)
  have "find_entities_in_zone (db\<lparr>zones := map (\<lambda>r. r\<lparr>active := flag r\<rparr>) (zones db)\<rparr>)
          zone_name = find_entities_in_zone db zone_name"
    by (simp add: find_entities_in_zone_def f l list_entities_def split: option.split)
  then show ?thesis
    by (simp add: find_entities_in_zone_Some list_entities_def)
qed

theorem find_entities_in_zone_ignores_active_witness:
  "list_zones True (example_db\<lparr>zones := map (\<lambda>r. r\<lparr>active := 0\<rparr>) (zones example_db)\<rparr>) = [] \<and>
   find_entities_in_zone (example_db\<lparr>zones := map (\<lambda>r. r\<lparr>active := 0\<rparr>) (zones example_db)\<rparr>)
     ''A'' =
     [(ent 1 ''p1'' 3 ''t1'', 3), (ent 3 ''p3'' (-3) ''t3'', 3), (ent 5 ''p1'' 3 ''t5'', 3),
      (ent 4 ''p4'' 5 ''t4'', 5)]"
proof -
  have a: "list_zones True
      (example_db\<lparr>zones := map (\<lambda>r. r\<lparr>active := 0\<rparr>) (zones example_db)\<rparr>) = []"
    by (simp add: list_zones_def example_db_rows)
  from find_entities_in_zone_ignores_active
    [where db = example_db and flag = "\<lambda>r. 0" and zone_name = "''A''"] a
  show ?thesis by (simp add: example_in_zone)
qed

section \<open>Export and reconstruction\<close>

lemma reconstruct_Zone_asdict: "reconstruct_Zone (asdict_Zone r) = Some r"
  by (simp add: reconstruct_Zone_def asdict_Zone_def get_int_def get_str_def get_float_def)

lemma reconstruct_SpatialEntity_asdict:
  "reconstruct_SpatialEntity (asdict_SpatialEntity r) = Some r"
  by (simp add: reconstruct_SpatialEntity_def asdict_SpatialEntity_def get_int_def get_str_def
      get_float_def)

lemma those_map_inverse:
  assumes "\<And>x. f (g x) = Some x"
  shows "those (map (f \<circ> g) xs) = Some xs"
  by (induction xs) (simp_all add: assms)

text \<open>
  Claim C6. The structure \<open>export_data\<close> returns lists, under \<open>zones\<close>, the dictionary of
  every zone row, whatever its \<open>active\<close> flag, and under \<open>entities\<close> the dictionary of
  every entity row; reading the records back from the exported structure gives the stored
  zone rows and entity rows again, each list in its order.
\<close>

theorem export_round_trip:
  "get_list (export_data db now) ''zones'' = Some (map asdict_Zone (zones db)) \<and>
   get_list (export_data db now) ''entities'' = Some (map asdict_SpatialEntity (entities db)) \<and>
   reconstruct (export_data db now) = Some (zones db, entities db)"
proof -
  have z: "get_list (export_data db now) ''zones'' = Some (map asdict_Zone (zones db))"
    by (simp add: get_list_def export_data_def list_zones_def)
  have e: "get_list (export_data db now) ''entities'' =
             Some (map asdict_SpatialEntity (entities db))"
    by (simp add: get_list_def export_data_def list_entities_def)
  have "reconstruct (export_data db now) = Some (zones db, entities db)"
    unfolding reconstruct_def z e
    by (simp add: those_map_inverse reconstruct_Zone_asdict reconstruct_SpatialEntity_asdict)
  with z e show ?thesis by simp
qed

theorem export_round_trip_witness:
  "list_zones True (example_db\<lparr>zones := [zone_A\<lparr>active := 0\<rparr>]\<rparr>) = [] \<and>
   get_list (export_data (example_db\<lparr>zones := [zone_A\<lparr>active := 0\<rparr>]\<rparr>) ''t9'') ''zones'' =
     Some [asdict_Zone (zone_A\<lparr>active := 0\<rparr>)] \<and>
   reconstruct (export_data (example_db\<lparr>zones := [zone_A\<lparr>active := 0\<rparr>]\<rparr>) ''t9'') =
     Some ([zone_A\<lparr>active := 0\<rparr>], entities example_db)"
  using export_round_trip [of "example_db\<lparr>zones := [zone_A\<lparr>active := 0\<rparr>]\<rparr>" "''t9''"]
  by (simp add: list_zones_def)

section \<open>The radius of a new zone\<close>

text \<open>
  Claim C8 says that every zone \<open>add_zone\<close> creates has a radius that is not negative.
  \<open>add_zone\<close> does not look at the radius: on the empty database a call with radius
  \<open>-1\<close> succeeds and stores a zone of radius \<open>-1\<close>.
\<close>

theorem add_zone_negative_radius:
  "add_zone init_db ''pit'' 0 0 0 (-1) ''generic'' ''t0'' =
     (Inr \<lparr>z_id = 1, z_name = ''pit'', center_x = 0, center_y = 0, center_z = 0, radius = -1,
           zone_type = ''generic'', created_at = ''t0'', active = 1\<rparr>,
      \<lparr>zones = [\<lparr>z_id = 1, z_name = ''pit'', center_x = 0, center_y = 0, center_z = 0,
                 radius = -1, zone_type = ''generic'', created_at = ''t0'', active = 1\<rparr>],
       zones_seq = 1, entities = [], entities_seq = 0\<rparr>)"
  by (simp add: add_zone_def init_db_def next_rowid_def Let_def)

text \<open>
  Claim C8, amended. A call of \<open>add_zone\<close> that succeeds creates a zone whose radius is
  the radius it was given and appends that zone to the zone rows. So all stored radii are
  non-negative after the call exactly when they were before it and the radius given is
  non-negative.
\<close>

theorem add_zone_stores_radius:
  assumes "add_zone db name cx cy cz rad ztype now = (Inr zone, db')"
  shows "radius zone = rad \<and> zones db' = zones db @ [zone] \<and>
         ((\<forall>r \<in> set (zones db'). 0 \<le> radius r) \<longleftrightarrow>
            (\<forall>r \<in> set (zones db). 0 \<le> radius r) \<and> 0 \<le> rad)"
  using assms by (auto simp: add_zone_def Let_def split: if_splits)

theorem add_zone_stores_radius_witness:
  "add_zone init_db ''A'' 0 0 0 5 ''generic'' ''t0'' =
     (Inr zone_A, \<lparr>zones = [zone_A], zones_seq = 1, entities = [], entities_seq = 0\<rparr>) \<and>
   radius zone_A = 5 \<and>
   zones \<lparr>zones = [zone_A], zones_seq = 1, entities = [], entities_seq = 0\<rparr> =
     zones init_db @ [zone_A]"
proof -
  have h: "add_zone init_db ''A'' 0 0 0 5 ''generic'' ''t0'' =
     (Inr zone_A, \<lparr>zones = [zone_A], zones_seq = 1, entities = [], entities_seq = 0\<rparr>)"
    by (simp add: add_zone_def init_db_def next_rowid_def zone_A_def Let_def)
  from add_zone_stores_radius [OF h] h show ?thesis by simp
qed

section \<open>Registering an entity\<close>




end
